theory Spec2Isabelle
  imports Complex_Main
begin

section \<open>Python values, errors and numeric primitives\<close>

text \<open>
  The finance calculator works on Python \<open>float\<close> and \<open>int\<close> values and returns
  dictionaries built from dict literals. A Python \<open>float\<close> is modelled as a real number
  with exact arithmetic (overflow and the inexactness of binary doubles are outside
  the model), an \<open>int\<close> as an integer. Every exception the modelled code can
  raise is a value of \<open>py_error\<close>, and a function that may raise returns
  \<open>py_error + 'a\<close> with \<open>Inl\<close> for the exception.
\<close>

datatype py_error = ZeroDivisionError | KeyError | NameError | ValueError | TypeError

datatype py_val =
  PyInt int | PyFloat real | PyStr string | PyList "py_val list" | PyFunction string

type_synonym py_dict = "(string \<times> py_val) list"

text \<open>\<open>d[k]\<close> on a dictionary: the value, or \<open>KeyError\<close> when the key is absent.\<close>

definition py_getitem :: "py_dict \<Rightarrow> string \<Rightarrow> py_error + py_val" where
  "py_getitem d k = (case map_of d k of None \<Rightarrow> Inl KeyError | Some v \<Rightarrow> Inr v)"

text \<open>\<open>a / b\<close> on floats raises \<open>ZeroDivisionError\<close> when \<open>b\<close> is zero.\<close>

definition py_div :: "real \<Rightarrow> real \<Rightarrow> py_error + real" where
  "py_div a b = (if b = 0 then Inl ZeroDivisionError else Inr (a / b))"

text \<open>
  \<open>x ** n\<close> for a float \<open>x\<close> and an int \<open>n\<close>: zero to a negative power raises
  \<open>ZeroDivisionError\<close>; \<open>x ** 0\<close> is \<open>1.0\<close> for every \<open>x\<close>.
\<close>

definition py_pow :: "real \<Rightarrow> int \<Rightarrow> py_error + real" where
  "py_pow x n = (if x = 0 \<and> n < 0 then Inl ZeroDivisionError else Inr (x powi n))"

text \<open>
  \<open>round(x, 2)\<close>: the nearest multiple of one hundredth, an exact tie going to the
  even neighbour.
\<close>

definition round_half_even :: "real \<Rightarrow> int" where
  "round_half_even y =
     (let f = \<lfloor>y\<rfloor>; d = y - of_int f
      in if d < 1 / 2 then f
         else if 1 / 2 < d then f + 1
         else if even f then f else f + 1)"

definition py_round2 :: "real \<Rightarrow> real" where
  "py_round2 x = of_int (round_half_even (x * 100)) / 100"

section \<open>backend/utils/finance\_calculator.py\<close>

subsection \<open>calculate\_loan\_payment\<close>

definition calculate_loan_payment :: "real \<Rightarrow> real \<Rightarrow> real \<Rightarrow> int \<Rightarrow> py_error + py_dict" where
  "calculate_loan_payment vehicle_price down_payment interest_rate loan_term_months =
     (let loan_amount = vehicle_price - down_payment;
          monthly_rate = interest_rate / 12 / 100;
          payment =
            (if monthly_rate = 0 then py_div loan_amount (of_int loan_term_months)
             else
               (case py_pow (1 + monthly_rate) loan_term_months of
                  Inl e \<Rightarrow> Inl e
                | Inr pw1 \<Rightarrow>
                    (case py_pow (1 + monthly_rate) loan_term_months of
                       Inl e \<Rightarrow> Inl e
                     | Inr pw2 \<Rightarrow> py_div (loan_amount * (monthly_rate * pw1)) (pw2 - 1))))
      in case payment of
           Inl e \<Rightarrow> Inl e
         | Inr monthly_payment \<Rightarrow>
             (let total_cost = monthly_payment * of_int loan_term_months;
                  total_interest = total_cost - loan_amount
              in Inr [(''monthly_payment'', PyFloat (py_round2 monthly_payment)),
                      (''total_cost'', PyFloat (py_round2 total_cost)),
                      (''total_interest'', PyFloat (py_round2 total_interest)),
                      (''loan_term_months'', PyInt loan_term_months),
                      (''loan_amount'', PyFloat (py_round2 loan_amount))]))"

text \<open>
  The expression \<open>calculator.calculate_loan_payment(...)["monthlyPayment"]\<close> of the
  affordability and quiz endpoints in backend/api/finance.py.
\<close>

definition loan_monthlyPayment_lookup :: "real \<Rightarrow> real \<Rightarrow> real \<Rightarrow> int \<Rightarrow> py_error + py_val" where
  "loan_monthlyPayment_lookup vehicle_price down_payment interest_rate loan_term_months =
     (case calculate_loan_payment vehicle_price down_payment interest_rate loan_term_months of
        Inl e \<Rightarrow> Inl e
      | Inr result \<Rightarrow> py_getitem result ''monthlyPayment'')"

subsection \<open>calculate\_lease\_payment\<close>

definition calculate_lease_payment :: "real \<Rightarrow> real \<Rightarrow> real \<Rightarrow> real \<Rightarrow> int \<Rightarrow> py_error + py_dict" where
  "calculate_lease_payment vehicle_price residual_value money_factor down_payment lease_term_months =
     (let capitalized_cost = vehicle_price - down_payment
      in case py_div (capitalized_cost - residual_value) (of_int lease_term_months) of
           Inl e \<Rightarrow> Inl e
         | Inr monthly_depreciation \<Rightarrow>
             (let monthly_finance_charge = (capitalized_cost + residual_value) * money_factor;
                  monthly_payment = monthly_depreciation + monthly_finance_charge;
                  total_cost = (monthly_payment * of_int lease_term_months) + down_payment
              in Inr [(''monthly_payment'', PyFloat (py_round2 monthly_payment)),
                      (''total_lease_cost'', PyFloat (py_round2 total_cost)),
                      (''capitalized_cost'', PyFloat (py_round2 capitalized_cost)),
                      (''monthly_depreciation'', PyFloat (py_round2 monthly_depreciation)),
                      (''monthly_finance_charge'', PyFloat (py_round2 monthly_finance_charge)),
                      (''lease_term_months'', PyInt lease_term_months)]))"

subsection \<open>calculate\_affordability\<close>


subsection \<open>calculate\_depreciation\<close>





section \<open>backend/schemas/finance\_schemas.py\<close>












section \<open>Strings\<close>

text \<open>
  \<open>str.lower()\<close>, the substring test \<open>a in b\<close> and \<open>int(s)\<close>, on ASCII text: \<open>int\<close>
  strips surrounding whitespace, reads an optional sign and then decimal digits, which
  single underscores may separate; anything else raises \<open>ValueError\<close>.
\<close>

definition lower_char :: "char \<Rightarrow> char" where
  "lower_char c =
     (let k = (of_char c :: nat) in if 65 \<le> k \<and> k \<le> 90 then char_of (k + 32) else c)"

definition py_lower :: "string \<Rightarrow> string" where
  "py_lower s = map lower_char s"

fun starts_with :: "string \<Rightarrow> string \<Rightarrow> bool" where
  "starts_with [] ys = True"
| "starts_with (x # xs) [] = False"
| "starts_with (x # xs) (y # ys) = (x = y \<and> starts_with xs ys)"

fun py_in :: "string \<Rightarrow> string \<Rightarrow> bool" where
  "py_in xs [] = (xs = [])"
| "py_in xs (y # ys) = (starts_with xs (y # ys) \<or> py_in xs ys)"

definition is_space :: "char \<Rightarrow> bool" where
  "is_space c = (let k = (of_char c :: nat) in k = 32 \<or> (9 \<le> k \<and> k \<le> 13))"

definition is_digit :: "char \<Rightarrow> bool" where
  "is_digit c = (let k = (of_char c :: nat) in 48 \<le> k \<and> k \<le> 57)"

definition py_strip :: "string \<Rightarrow> string" where
  "py_strip s = rev (dropWhile is_space (rev (dropWhile is_space s)))"

fun parse_digits :: "string \<Rightarrow> nat \<Rightarrow> bool \<Rightarrow> nat option" where
  "parse_digits [] acc after_digit = (if after_digit then Some acc else None)"
| "parse_digits (c # cs) acc after_digit =
     (if is_digit c then parse_digits cs (acc * 10 + (of_char c - 48)) True
      else if c = CHR ''_'' \<and> after_digit then parse_digits cs acc False
      else None)"

definition py_int :: "string \<Rightarrow> py_error + int" where
  "py_int s =
     (case py_strip s of
        [] \<Rightarrow> Inl ValueError
      | c # cs \<Rightarrow>
          (if c = CHR ''-'' then
             (case parse_digits cs 0 False of
                None \<Rightarrow> Inl ValueError | Some n \<Rightarrow> Inr (- int n))
           else if c = CHR ''+'' then
             (case parse_digits cs 0 False of
                None \<Rightarrow> Inl ValueError | Some n \<Rightarrow> Inr (int n))
           else
             (case parse_digits (c # cs) 0 False of
                None \<Rightarrow> Inl ValueError | Some n \<Rightarrow> Inr (int n))))"

section \<open>backend/api/finance.py: calculate\_match\_score\<close>

text \<open>
  The attributes of a vehicle and of the preferences that the scoring function reads.
  \<open>vehicle["seatingCapacity"]\<close> is an optional string; \<open>None\<close> and the empty string
  are false in the test \<open>if vehicle["seatingCapacity"]\<close>.
\<close>

record Engine =
  fuelType :: string

record Vehicle =
  vehicle_type :: string
  features :: "string list"
  seatingCapacity :: "string option"
  engine :: Engine

record Preferences =
  vehicleTypes :: "string list"
  mustHaveFeatures :: "string list"
  seatingMinimum :: int
  fuelPreference :: string

definition calculate_match_score :: "Vehicle \<Rightarrow> Preferences \<Rightarrow> py_error + real" where
  "calculate_match_score vehicle preferences =
     (let score = 100 in
      if vehicle_type vehicle \<notin> set (vehicleTypes preferences) then Inr 0
      else
        (let vehicle_features = set (features vehicle);
             must_have_features = set (mustHaveFeatures preferences);
             missing_features = must_have_features - vehicle_features;
             score = score - of_nat (card missing_features) * 10;
             seating =
               (case seatingCapacity vehicle of
                  None \<Rightarrow> Inr score
                | Some cap \<Rightarrow>
                    if cap = [] then Inr score
                    else
                      (case py_int cap of
                         Inl e \<Rightarrow> Inl e
                       | Inr n \<Rightarrow>
                           Inr (if n < seatingMinimum preferences then score - 30 else score)))
         in case seating of
              Inl e \<Rightarrow> Inl e
            | Inr score \<Rightarrow>
                (let score =
                       (if py_in (py_lower (fuelPreference preferences))
                             (py_lower (fuelType (engine vehicle)))
                        then score + 10 else score - 10)
                 in Inr (max 0 (min 100 score)))))"

section \<open>finance\_calculator.py: the scratch helpers\<close>

text \<open>
  Name resolution inside a function body: a name the body assigns (or a parameter) is
  local; any other name is looked up in the module's globals and then in the builtins,
  and raises \<open>NameError\<close> when neither binds it. Names are case-sensitive.
\<close>

definition module_globals :: "py_dict" where
  "module_globals =
     [(''find_monthly_payment'', PyFunction ''find_monthly_payment''),
      (''find_lease_payment'', PyFunction ''find_lease_payment''),
      (''max_affordable_vehicle'', PyFunction ''max_affordable_vehicle''),
      (''future_value'', PyFunction ''future_value'')]"

text \<open>The builtins the module uses; no builtin is named \<open>P\<close>.\<close>

definition py_builtins :: "py_dict" where
  "py_builtins = [(''round'', PyFunction ''round'')]"

definition load_name :: "py_dict \<Rightarrow> string \<Rightarrow> py_error + py_val" where
  "load_name locals x =
     (case map_of locals x of
        Some v \<Rightarrow> Inr v
      | None \<Rightarrow>
          (case map_of module_globals x of
             Some v \<Rightarrow> Inr v
           | None \<Rightarrow>
               (case map_of py_builtins x of
                  Some v \<Rightarrow> Inr v
                | None \<Rightarrow> Inl NameError)))"

definition as_float :: "py_val \<Rightarrow> py_error + real" where
  "as_float v =
     (case v of PyInt i \<Rightarrow> Inr (of_int i) | PyFloat x \<Rightarrow> Inr x | _ \<Rightarrow> Inl TypeError)"

definition find_monthly_payment :: "py_val \<Rightarrow> real \<Rightarrow> int \<Rightarrow> real \<Rightarrow> py_error + real" where
  "find_monthly_payment model_car amount_desired n_month_estimated annual_rate =
     (let p = amount_desired;
          r = (annual_rate / 100) / 12;
          n = n_month_estimated;
          locals = [(''model_car'', model_car), (''amount_desired'', PyFloat amount_desired),
                    (''n_month_estimated'', PyInt n_month_estimated),
                    (''annual_rate'', PyFloat annual_rate),
                    (''p'', PyFloat p), (''r'', PyFloat r), (''n'', PyInt n)];
          payment =
            (if r = 0 then
               (case load_name locals ''P'' of
                  Inl e \<Rightarrow> Inl e
                | Inr P \<Rightarrow>
                    (case as_float P of
                       Inl e \<Rightarrow> Inl e
                     | Inr Pv \<Rightarrow> py_div Pv (of_int n)))
             else
               (case load_name locals ''P'' of
                  Inl e \<Rightarrow> Inl e
                | Inr P \<Rightarrow>
                    (case as_float P of
                       Inl e \<Rightarrow> Inl e
                     | Inr Pv \<Rightarrow>
                         (case py_pow (1 + r) n of
                            Inl e \<Rightarrow> Inl e
                          | Inr pw1 \<Rightarrow>
                              (case py_pow (1 + r) n of
                                 Inl e \<Rightarrow> Inl e
                               | Inr pw2 \<Rightarrow> py_div (Pv * (r * pw1)) (pw2 - 1))))))
      in case payment of
           Inl e \<Rightarrow> Inl e
         | Inr monthly_payment \<Rightarrow> Inr (py_round2 monthly_payment))"

definition find_lease_payment :: "real \<Rightarrow> real \<Rightarrow> real \<Rightarrow> int \<Rightarrow> real \<Rightarrow> py_error + real" where
  "find_lease_payment vehicle_price down_payment residual_value term_months apr =
     (let capitalized_cost = vehicle_price - down_payment;
          money_factor = apr / 2400
      in case py_div (capitalized_cost - residual_value) (of_int term_months) of
           Inl e \<Rightarrow> Inl e
         | Inr dep \<Rightarrow>
             (let monthly_payment = dep + ((capitalized_cost + residual_value) * money_factor)
              in Inr (py_round2 monthly_payment)))"

section \<open>Rounding to two decimals\<close>









section \<open>The loan payment\<close>


lemma loan_payment_keys:
  assumes "calculate_loan_payment vp dp ir n = Inr d"
  shows "map fst d = [''monthly_payment'', ''total_cost'', ''total_interest'',
                      ''loan_term_months'', ''loan_amount'']"
  using assms
  by (auto simp: calculate_loan_payment_def Let_def split: sum.splits if_splits)







text \<open>
  C9: whenever \<open>calculate_loan_payment\<close> returns, the dictionary has exactly the keys
  \<open>monthly_payment\<close>, \<open>total_cost\<close>, \<open>total_interest\<close>, \<open>loan_term_months\<close> and
  \<open>loan_amount\<close>, so the key \<open>monthlyPayment\<close> is absent and subscripting with it
  raises \<open>KeyError\<close>; the lookup the affordability and quiz endpoints perform yields no
  value for any input.
\<close>

theorem C9_loan_result_keys:
  "(calculate_loan_payment vehicle_price down_payment interest_rate loan_term_months = Inr d \<longrightarrow>
      dom (map_of d) =
        {''monthly_payment'', ''total_cost'', ''total_interest'', ''loan_term_months'',
         ''loan_amount''} \<and>
      distinct (map fst d) \<and>
      map_of d ''monthlyPayment'' = None \<and>
      py_getitem d ''monthlyPayment'' = Inl KeyError) \<and>
   (\<forall>v. loan_monthlyPayment_lookup vehicle_price down_payment interest_rate loan_term_months
          \<noteq> Inr v)"
proof -
  have keys: "map fst d' = [''monthly_payment'', ''total_cost'', ''total_interest'',
                            ''loan_term_months'', ''loan_amount'']"
    if "calculate_loan_payment vehicle_price down_payment interest_rate loan_term_months = Inr d'"
    for d'
    using that by (rule loan_payment_keys)
  have none: "map_of d' ''monthlyPayment'' = None"
    if "calculate_loan_payment vehicle_price down_payment interest_rate loan_term_months = Inr d'"
    for d'
  proof -
    have "''monthlyPayment'' \<notin> set (map fst d')"
      unfolding keys[OF that] by simp
    then show ?thesis
      by (simp add: map_of_eq_None_iff)
  qed
  have first: "dom (map_of d) =
        {''monthly_payment'', ''total_cost'', ''total_interest'', ''loan_term_months'',
         ''loan_amount''} \<and>
      distinct (map fst d) \<and>
      map_of d ''monthlyPayment'' = None \<and>
      py_getitem d ''monthlyPayment'' = Inl KeyError"
    if h: "calculate_loan_payment vehicle_price down_payment interest_rate loan_term_months = Inr d"
  proof -
    have "dom (map_of d) = set (map fst d)"
      by (simp add: dom_map_of_conv_image_fst)
    then have "dom (map_of d) =
        {''monthly_payment'', ''total_cost'', ''total_interest'', ''loan_term_months'',
         ''loan_amount''}"
      unfolding keys[OF h] by auto
    moreover have "distinct (map fst d)"
      unfolding keys[OF h] by simp
    ultimately show ?thesis
      using none[OF h] by (simp add: py_getitem_def)
  qed
  have second: "loan_monthlyPayment_lookup vehicle_price down_payment interest_rate loan_term_months
          \<noteq> Inr v" for v
    using none
    by (auto simp: loan_monthlyPayment_lookup_def py_getitem_def split: sum.splits)
  from first second show ?thesis by blast
qed

theorem C9_loan_result_keys_witness:
  "calculate_loan_payment 30000 5000 0 60 =
     Inr [(''monthly_payment'', PyFloat (41667 / 100)),
          (''total_cost'', PyFloat 25000),
          (''total_interest'', PyFloat 0),
          (''loan_term_months'', PyInt 60),
          (''loan_amount'', PyFloat 25000)] \<and>
   py_getitem [(''monthly_payment'', PyFloat (41667 / 100)),
          (''total_cost'', PyFloat 25000),
          (''total_interest'', PyFloat 0),
          (''loan_term_months'', PyInt 60),
          (''loan_amount'', PyFloat 25000)] ''monthlyPayment'' = Inl KeyError \<and>
   (\<forall>v. loan_monthlyPayment_lookup 30000 5000 0 60 \<noteq> Inr v)"
proof -
  have h: "calculate_loan_payment 30000 5000 0 60 =
     Inr [(''monthly_payment'', PyFloat (41667 / 100)),
          (''total_cost'', PyFloat 25000),
          (''total_interest'', PyFloat 0),
          (''loan_term_months'', PyInt 60),
          (''loan_amount'', PyFloat 25000)]"
    by (simp add: calculate_loan_payment_def py_div_def py_round2_def round_half_even_def Let_def)
  from C9_loan_result_keys[of 30000 5000 0 60] h show ?thesis
    by simp
qed

section \<open>Affordability\<close>






section \<open>The lease payment\<close>





text \<open>
  C5: for all inputs the scratch helper \<open>find_lease_payment\<close>, which divides the APR by
  2400 itself, gives what \<open>calculate_lease_payment\<close> called with the money factor
  \<open>apr / 2400\<close> gives under \<open>monthly_payment\<close>: the same rounded payment, or the same
  \<open>ZeroDivisionError\<close> when the term is zero.
\<close>

theorem C5_find_lease_payment_agrees:
  "map_sum id PyFloat (find_lease_payment vehicle_price down_payment residual_value term_months apr) =
     (case calculate_lease_payment vehicle_price residual_value (apr / 2400) down_payment
             term_months of
        Inl e \<Rightarrow> Inl e
      | Inr d \<Rightarrow> py_getitem d ''monthly_payment'')"
  by (simp add: find_lease_payment_def calculate_lease_payment_def py_div_def py_getitem_def Let_def)

section \<open>Depreciation\<close>








section \<open>The match score\<close>

text \<open>
  C7: a score that \<open>calculate_match_score\<close> returns lies between 0 and 100, and a
  score is returned for every vehicle whose seating capacity is absent, empty or
  reads as an integer, whatever the preferences are.
\<close>

theorem C7_score_bounds:
  "(calculate_match_score vehicle preferences = Inr s \<longrightarrow> 0 \<le> s \<and> s \<le> 100) \<and>
   ((case seatingCapacity vehicle of
       None \<Rightarrow> True
     | Some cap \<Rightarrow> cap = [] \<or> (\<exists>n. py_int cap = Inr n)) \<longrightarrow>
      (\<exists>s'. calculate_match_score vehicle preferences = Inr s' \<and> 0 \<le> s' \<and> s' \<le> 100))"
proof -
  have bounds: "0 \<le> s \<and> s \<le> 100" if "calculate_match_score vehicle preferences = Inr s"
    using that
    by (auto simp: calculate_match_score_def Let_def
             split: if_splits option.splits sum.splits)
  have returns: "\<exists>s'. calculate_match_score vehicle preferences = Inr s'"
    if "case seatingCapacity vehicle of
          None \<Rightarrow> True
        | Some cap \<Rightarrow> cap = [] \<or> (\<exists>n. py_int cap = Inr n)"
    using that
    by (auto simp: calculate_match_score_def Let_def split: option.splits)
  show ?thesis
  proof (intro conjI impI)
    assume "calculate_match_score vehicle preferences = Inr s"
    then show "0 \<le> s" and "s \<le> 100" using bounds by simp_all
  next
    assume "case seatingCapacity vehicle of
          None \<Rightarrow> True
        | Some cap \<Rightarrow> cap = [] \<or> (\<exists>n. py_int cap = Inr n)"
    from returns[OF this] obtain s' where s': "calculate_match_score vehicle preferences = Inr s'"
      by blast
    have "0 \<le> s' \<and> s' \<le> 100"
      using s'
      by (auto simp: calculate_match_score_def Let_def
               split: if_splits option.splits sum.splits)
    with s' show "\<exists>s'. calculate_match_score vehicle preferences = Inr s' \<and> 0 \<le> s' \<and> s' \<le> 100"
      by blast
  qed
qed

theorem C7_score_bounds_witness:
  "calculate_match_score
     \<lparr>vehicle_type = ''Trucks'', features = [''tow hitch''], seatingCapacity = Some ''5'',
      engine = \<lparr>fuelType = ''Gasoline''\<rparr>\<rparr>
     \<lparr>vehicleTypes = [''Trucks''], mustHaveFeatures = [''sunroof'', ''tow hitch''],
      seatingMinimum = 7, fuelPreference = ''Diesel''\<rparr> = Inr 50 \<and>
   (0 :: real) \<le> 50 \<and> (50 :: real) \<le> 100 \<and>
   py_int ''5'' = Inr 5"
proof -
  have h: "calculate_match_score
     \<lparr>vehicle_type = ''Trucks'', features = [''tow hitch''], seatingCapacity = Some ''5'',
      engine = \<lparr>fuelType = ''Gasoline''\<rparr>\<rparr>
     \<lparr>vehicleTypes = [''Trucks''], mustHaveFeatures = [''sunroof'', ''tow hitch''],
      seatingMinimum = 7, fuelPreference = ''Diesel''\<rparr> = Inr 50"
    by code_simp
  have p: "py_int ''5'' = Inr 5"
    by code_simp
  from C7_score_bounds
         [of "\<lparr>vehicle_type = ''Trucks'', features = [''tow hitch''], seatingCapacity = Some ''5'',
               engine = \<lparr>fuelType = ''Gasoline''\<rparr>\<rparr>"
             "\<lparr>vehicleTypes = [''Trucks''], mustHaveFeatures = [''sunroof'', ''tow hitch''],
               seatingMinimum = 7, fuelPreference = ''Diesel''\<rparr>" 50]
       h p
  show ?thesis by simp
qed





section \<open>The scratch helper find\_monthly\_payment\<close>

text \<open>
  C10: \<open>find_monthly_payment\<close> raises \<open>NameError\<close> for every input and never returns a
  value: both branches read the name \<open>P\<close>, which neither the function's locals (the
  principal is bound as \<open>p\<close>) nor the module's globals nor the builtins bind.
\<close>

theorem C10_find_monthly_payment_name_error:
  "find_monthly_payment model_car amount_desired n_month_estimated annual_rate = Inl NameError"
  by (simp add: find_monthly_payment_def load_name_def module_globals_def py_builtins_def Let_def)

end
